theory Spec2Isabelle
  imports Complex_Main
begin

section \<open>Conventions of the embedding\<close>

text \<open>
  The repository holds two implementations of the converter with the same function names:
  the regular-expression based \<^verbatim>\<open>src/coordinate_parser.py\<close> and the split-based
  \<^verbatim>\<open>src/python/coordinate_parser.py\<close>. The functions of the split-based file keep their
  names; the functions of the regular-expression based file carry the suffix \<open>_re\<close>.

  Python strings are lists of characters; a character is a code point below 256, so the
  degree sign is \<open>CHR 0xB0\<close>. Python floats are modelled by exact rationals: the binary
  rounding of float arithmetic is outside the model. Every failure of the source is a
  \<^verbatim>\<open>ValueError\<close> (one \<^verbatim>\<open>IndexError\<close> apart); the constructors of \<open>error\<close> name the
  \<^verbatim>\<open>raise\<close> statement that produced it.
\<close>

datatype error =
    HoursRange rat              \<comment> \<open>"Hours out of range [0..24)" / "Hours must be between 0 and 24"\<close>
  | MinutesRange rat            \<comment> \<open>"Minutes out of range [0..60)" / "Minutes must be between 0 and 60"\<close>
  | SecondsRange rat            \<comment> \<open>"Seconds out of range [0..60)" / "Seconds must be between 0 and 60"\<close>
  | RaRange rat                 \<comment> \<open>"RA must be [0..360)" / "RA must be between 0 and 360 degrees"\<close>
  | RaHoursRange rat            \<comment> \<open>"RA must be between 0 and 24 hours"\<close>
  | DecRange rat                \<comment> \<open>"Dec must be [-90..+90]"\<close>
  | FloatError string           \<comment> \<open>\<^verbatim>\<open>float()\<close>: "could not convert string to float"\<close>
  | CasaTokens "string list"    \<comment> \<open>"Expected 2 tokens for CASA input"\<close>
  | CannotSplitHmsdms string    \<comment> \<open>"Cannot split hmsdms input"\<close>
  | CannotSplitDegrees string   \<comment> \<open>"Cannot split degrees input"\<close>
  | CannotParseDecimal string   \<comment> \<open>"Cannot parse ... as decimal degrees."\<close>
  | CasaRaFields string         \<comment> \<open>"CASA RA must have exactly 3 colon fields"\<close>
  | InvalidCasaDec string       \<comment> \<open>"Invalid CASA dec"\<close>
  | BadInputFormat              \<comment> \<open>"input_format must be either 'hmsdms' or 'degrees'"\<close>
  | BadOutputFormat             \<comment> \<open>"Invalid output format specified."\<close>
  | AppearsDecimal              \<comment> \<open>"Input appears to be in decimal degrees but input_format='hmsdms' specified"\<close>
  | AppearsDMS                  \<comment> \<open>"Input appears to be in DMS format but input_format='hmsdms' specified"\<close>
  | AppearsHMS                  \<comment> \<open>"Input appears to be in HMS format but input_format='degrees' specified"\<close>
  | CasaOnlyHmsdms              \<comment> \<open>"CASA format is only valid with input_format='hmsdms'"\<close>
  | ExpectedHMS string          \<comment> \<open>"Expected HMS format for RA when input_format='hmsdms'"\<close>
  | ExpectedDegree string       \<comment> \<open>"Expected degree format for RA when input_format='degrees'"\<close>
  | NotRecognized               \<comment> \<open>"Input string format not recognized."\<close>
  | UnpackError                 \<comment> \<open>\<^verbatim>\<open>int_part, frac_part = base_str.split('.')\<close> on other than two parts\<close>
  | IndexError                  \<comment> \<open>\<^verbatim>\<open>input_string.split()[1]\<close> on fewer than two parts\<close>


section \<open>Python built-ins used by the source\<close>

definition is_digit :: "char \<Rightarrow> bool" where
  "is_digit c = (c \<in> set ''0123456789'')"

text \<open>\<^verbatim>\<open>str.isspace\<close> and the class \<^verbatim>\<open>\s\<close> of \<^verbatim>\<open>re\<close>, on code points below 256.\<close>

definition is_space :: "char \<Rightarrow> bool" where
  "is_space c = (c \<in> set [CHR 0x09, CHR 0x0A, CHR 0x0B, CHR 0x0C, CHR 0x0D, CHR 0x1C, CHR 0x1D,
                            CHR 0x1E, CHR 0x1F, CHR 0x20, CHR 0x85, CHR 0xA0])"

definition lstrip :: "string \<Rightarrow> string" where
  "lstrip s = dropWhile is_space s"

definition rstrip :: "string \<Rightarrow> string" where
  "rstrip s = rev (dropWhile is_space (rev s))"

text \<open>\<^verbatim>\<open>str.strip()\<close>\<close>

definition strip :: "string \<Rightarrow> string" where
  "strip s = rstrip (lstrip s)"

definition digit_val :: "char \<Rightarrow> int" where
  "digit_val c = of_char c - 48"

definition digits_val :: "string \<Rightarrow> int" where
  "digits_val ds = foldl (\<lambda>a c. 10 * a + digit_val c) 0 ds"

text \<open>
  \<^verbatim>\<open>float(s)\<close> on a string: surrounding whitespace, an optional sign, digits with an
  optional point (at least one digit), an optional exponent. \<open>None\<close> is the
  \<^verbatim>\<open>ValueError\<close> of \<^verbatim>\<open>float\<close>. The spellings \<^verbatim>\<open>inf\<close>, \<^verbatim>\<open>nan\<close> and digits
  grouped by underscores, which Python accepts too, have no rational value and are not
  modelled: the theorems below assume fields on which \<open>py_float\<close> returns a value.
\<close>

definition float_exponent :: "string \<Rightarrow> int option" where
  "float_exponent r =
     (case r of
        [] \<Rightarrow> Some 0
      | c # r1 \<Rightarrow>
          if c = CHR ''e'' \<or> c = CHR ''E'' then
            (let (neg, ds) = (case r1 of
                                [] \<Rightarrow> (False, [])
                              | d # r2 \<Rightarrow> if d = CHR ''-'' then (True, r2)
                                          else if d = CHR ''+'' then (False, r2)
                                          else (False, r1))
             in if ds \<noteq> [] \<and> list_all is_digit ds
                then Some (if neg then - digits_val ds else digits_val ds)
                else None)
          else None)"

definition float_unsigned :: "string \<Rightarrow> rat option" where
  "float_unsigned body =
     (let ip = takeWhile is_digit body;
          r1 = dropWhile is_digit body;
          (fp, r2) = (case r1 of
                        [] \<Rightarrow> ([], [])
                      | c # r \<Rightarrow> if c = CHR ''.'' then (takeWhile is_digit r, dropWhile is_digit r)
                                 else ([], r1))
      in if ip = [] \<and> fp = [] then None
         else (case float_exponent r2 of
                 None \<Rightarrow> None
               | Some e \<Rightarrow>
                   (let m = of_int (digits_val (ip @ fp)) / 10 ^ length fp
                    in Some (if e < 0 then m / 10 ^ nat (- e) else m * 10 ^ nat e))))"

definition py_float :: "string \<Rightarrow> rat option" where
  "py_float str =
     (case strip str of
        [] \<Rightarrow> None
      | c # r \<Rightarrow>
          if c = CHR ''-'' then map_option uminus (float_unsigned r)
          else if c = CHR ''+'' then float_unsigned r
          else float_unsigned (c # r))"

text \<open>\<^verbatim>\<open>float(x)\<close> inside a function that lets the \<^verbatim>\<open>ValueError\<close> escape.\<close>

definition to_float :: "string \<Rightarrow> error + rat" where
  "to_float s = (case py_float s of None \<Rightarrow> Inl (FloatError s) | Some v \<Rightarrow> Inr v)"

text \<open>Sequencing of calls that may raise: the first error ends the computation.\<close>

definition err_bind :: "error + 'a \<Rightarrow> ('a \<Rightarrow> error + 'b) \<Rightarrow> error + 'b" where
  "err_bind r f = (case r of Inl e \<Rightarrow> Inl e | Inr v \<Rightarrow> f v)"

subsection \<open>Splitting\<close>

text \<open>\<^verbatim>\<open>s.split(d)\<close> for a one-character separator: empty parts are kept.\<close>

fun split_char :: "char \<Rightarrow> string \<Rightarrow> string list" where
  "split_char d [] = [[]]"
| "split_char d (c # cs) =
     (if c = d then [] # split_char d cs
      else (case split_char d cs of [] \<Rightarrow> [[c]] | w # ws \<Rightarrow> (c # w) # ws))"

text \<open>
  \<^verbatim>\<open>re.split(p, s)\<close> for a pattern \<^verbatim>\<open>[...]+\<close>: the string is cut at every maximal run
  of separator characters; a run at either end leaves an empty part there.
\<close>

function re_split :: "(char \<Rightarrow> bool) \<Rightarrow> string \<Rightarrow> string list" where
  "re_split sep [] = [[]]"
| "re_split sep (c # cs) =
     (if sep c then [] # re_split sep (dropWhile sep cs)
      else (case re_split sep cs of [] \<Rightarrow> [[c]] | w # ws \<Rightarrow> (c # w) # ws))"
  by pat_completeness auto
termination
  by (relation "measure (\<lambda>(sep, s). length s)")
     (auto simp: less_Suc_eq_le length_dropWhile_le)

text \<open>\<^verbatim>\<open>s.split()\<close>: the maximal runs of characters that are not whitespace.\<close>

definition split_ws :: "string \<Rightarrow> string list" where
  "split_ws s = filter (\<lambda>w. w \<noteq> []) (re_split is_space s)"

subsection \<open>Regular expressions\<close>

text \<open>
  The patterns of the source are sequences of repeated character classes, capturing
  groups, optional groups, \<^verbatim>\<open>\b\<close> and \<^verbatim>\<open>$\<close>. \<open>Rep c lo hi greedy\<close> is the class \<open>c\<close>
  repeated \<open>lo\<close> to \<open>hi\<close> times (\<open>None\<close>: unbounded). The patterns of the source that are
  compiled with \<^verbatim>\<open>re.IGNORECASE\<close> list both cases of every letter, so the flag changes
  nothing on code points below 256.
\<close>

datatype cclass = Chars string | Dot

fun cmatch :: "cclass \<Rightarrow> char \<Rightarrow> bool" where
  "cmatch (Chars cs) c = (c \<in> set cs)"
| "cmatch Dot c = (c \<noteq> CHR 0x0A)"

datatype ritem =
    Rep cclass nat "nat option" bool
  | GOpen nat
  | GClose nat
  | Opt "ritem list"
  | WordB
  | Eos

abbreviation One :: "cclass \<Rightarrow> ritem" where
  "One c \<equiv> Rep c 1 (Some 1) True"

abbreviation Maybe :: "cclass \<Rightarrow> ritem" where
  "Maybe c \<equiv> Rep c 0 (Some 1) True"

abbreviation Star :: "cclass \<Rightarrow> ritem" where
  "Star c \<equiv> Rep c 0 None True"

abbreviation Plus :: "cclass \<Rightarrow> ritem" where
  "Plus c \<equiv> Rep c 1 None True"

abbreviation Between :: "cclass \<Rightarrow> nat \<Rightarrow> nat \<Rightarrow> ritem" where
  "Between c lo hi \<equiv> Rep c lo (Some hi) True"

abbreviation LazyStar :: "cclass \<Rightarrow> ritem" where
  "LazyStar c \<equiv> Rep c 0 None False"

abbreviation digit :: cclass where
  "digit \<equiv> Chars ''0123456789''"

abbreviation space :: cclass where
  "space \<equiv> Chars [CHR 0x09, CHR 0x0A, CHR 0x0B, CHR 0x0C, CHR 0x0D, CHR 0x1C, CHR 0x1D,
                   CHR 0x1E, CHR 0x1F, CHR 0x20, CHR 0x85, CHR 0xA0]"

text \<open>The class \<^verbatim>\<open>\w\<close>, which decides \<^verbatim>\<open>\b\<close>: letters, digits, numeric characters, underscore.\<close>

definition is_word :: "char \<Rightarrow> bool" where
  "is_word c = (let n = (of_char c :: nat) in
     (48 \<le> n \<and> n \<le> 57) \<or> (65 \<le> n \<and> n \<le> 90) \<or> n = 95 \<or> (97 \<le> n \<and> n \<le> 122) \<or>
     n = 170 \<or> n = 178 \<or> n = 179 \<or> n = 181 \<or> n = 185 \<or> n = 186 \<or> (188 \<le> n \<and> n \<le> 190) \<or>
     (192 \<le> n \<and> n \<le> 214) \<or> (216 \<le> n \<and> n \<le> 246) \<or> 248 \<le> n)"

definition word_at :: "char option \<Rightarrow> bool" where
  "word_at c = (case c of None \<Rightarrow> False | Some x \<Rightarrow> is_word x)"

fun isize :: "ritem \<Rightarrow> nat" where
  "isize (Opt items) = Suc (sum_list (map isize items))"
| "isize i = 1"

type_synonym captures = "(nat \<times> nat \<times> nat) list"

text \<open>
  Backtracking matcher, in the order of Python's \<^verbatim>\<open>re\<close>. \<open>prev\<close> is the character
  before the current position, \<open>pos\<close> the number of characters consumed, \<open>caps\<close> the
  groups opened so far as (number, start, end). The result is the first way of matching all
  items: the last character consumed, the rest of the string and the groups.
\<close>

function mtch :: "ritem list \<Rightarrow> char option \<Rightarrow> string \<Rightarrow> nat \<Rightarrow> captures
                    \<Rightarrow> (char option \<times> string \<times> captures) option" where
  "mtch [] prev s pos caps = Some (prev, s, caps)"
| "mtch (GOpen n # r) prev s pos caps = mtch r prev s pos ((n, pos, pos) # caps)"
| "mtch (GClose n # r) prev s pos caps =
     mtch r prev s pos (map (\<lambda>(i, a, b). if i = n then (i, a, pos) else (i, a, b)) caps)"
| "mtch (Eos # r) prev s pos caps =
     (if s = [] \<or> s = [CHR 0x0A] then mtch r prev s pos caps else None)"
| "mtch (WordB # r) prev s pos caps =
     (if word_at prev \<noteq> word_at (case s of [] \<Rightarrow> None | c # _ \<Rightarrow> Some c)
      then mtch r prev s pos caps else None)"
| "mtch (Opt items # r) prev s pos caps =
     (case mtch (items @ r) prev s pos caps of
        Some res \<Rightarrow> Some res
      | None \<Rightarrow> mtch r prev s pos caps)"
| "mtch (Rep c lo hi greedy # r) prev [] pos caps =
     (if lo = 0 then mtch r prev [] pos caps else None)"
| "mtch (Rep c lo hi greedy # r) prev (x # xs) pos caps =
     (if cmatch c x \<and> hi \<noteq> Some 0 then
        (if greedy then
           (case mtch (Rep c (lo - 1) (map_option (\<lambda>h. h - 1) hi) greedy # r) (Some x) xs (Suc pos) caps of
              Some res \<Rightarrow> Some res
            | None \<Rightarrow> if lo = 0 then mtch r prev (x # xs) pos caps else None)
         else
           (case (if lo = 0 then mtch r prev (x # xs) pos caps else None) of
              Some res \<Rightarrow> Some res
            | None \<Rightarrow> mtch (Rep c (lo - 1) (map_option (\<lambda>h. h - 1) hi) greedy # r) (Some x) xs (Suc pos) caps))
      else if lo = 0 then mtch r prev (x # xs) pos caps else None)"
  by pat_completeness auto
termination
  by (relation "measures [\<lambda>(items, prev, s, pos, caps). sum_list (map isize items),
                          \<lambda>(items, prev, s, pos, caps). length s]")
     auto

text \<open>The text of group \<open>n\<close>; a group that took no part in the match (\<^verbatim>\<open>None\<close> in Python) is empty.\<close>

definition group_text :: "string \<Rightarrow> captures \<Rightarrow> nat \<Rightarrow> string" where
  "group_text s caps n =
     (case find (\<lambda>(i, a, b). i = n) caps of
        None \<Rightarrow> []
      | Some (i, a, b) \<Rightarrow> take (b - a) (drop a s))"

text \<open>\<^verbatim>\<open>re.match(p, s)\<close> followed by \<^verbatim>\<open>.groups()\<close>, for a pattern with \<open>n\<close> groups.\<close>

definition re_match :: "nat \<Rightarrow> ritem list \<Rightarrow> string \<Rightarrow> string list option" where
  "re_match n p s =
     (case mtch p None s 0 [] of
        None \<Rightarrow> None
      | Some (prev, rest, caps) \<Rightarrow> Some (map (group_text s caps) [1..<Suc n]))"

text \<open>
  \<^verbatim>\<open>re.sub(p, '', s)\<close>: every match found from left to right is deleted; an empty match
  deletes nothing and the scan moves on by one character.
\<close>

function re_sub_empty :: "ritem list \<Rightarrow> char option \<Rightarrow> string \<Rightarrow> string" where
  "re_sub_empty p prev [] = []"
| "re_sub_empty p prev (c # cs) =
     (case mtch p prev (c # cs) 0 [] of
        None \<Rightarrow> c # re_sub_empty p (Some c) cs
      | Some (prev', rest, caps) \<Rightarrow>
          if length rest < length (c # cs) then re_sub_empty p prev' rest
          else c # re_sub_empty p (Some c) cs)"
  by pat_completeness auto
termination
  by (relation "measure (\<lambda>(p, prev, s). length s)") auto

subsection \<open>Numbers and their formatting\<close>

text \<open>\<^verbatim>\<open>int(x)\<close> of a float: truncation towards zero.\<close>

definition py_int :: "rat \<Rightarrow> int" where
  "py_int x = (if 0 \<le> x then \<lfloor>x\<rfloor> else \<lceil>x\<rceil>)"

text \<open>\<^verbatim>\<open>x % y\<close>: the remainder has the sign of \<open>y\<close>.\<close>

definition py_mod :: "rat \<Rightarrow> rat \<Rightarrow> rat" where
  "py_mod x y = x - y * of_int \<lfloor>x / y\<rfloor>"

text \<open>Rounding to the nearest integer, ties to the even one: \<^verbatim>\<open>round(x)\<close>.\<close>

definition round_half_even :: "rat \<Rightarrow> int" where
  "round_half_even x =
     (let f = \<lfloor>x\<rfloor>; d = x - of_int f
      in if d < 1 / 2 then f else if 1 / 2 < d then f + 1 else if even f then f else f + 1)"

text \<open>\<^verbatim>\<open>round(x, ndigits)\<close>\<close>

definition py_round :: "rat \<Rightarrow> nat \<Rightarrow> rat" where
  "py_round x ndigits = of_int (round_half_even (x * 10 ^ ndigits)) / 10 ^ ndigits"

text \<open>The decimal digits of an integer that is not negative.\<close>

function int_digits :: "int \<Rightarrow> string" where
  "int_digits n =
     (if n < 10 then [''0123456789'' ! nat n]
      else int_digits (n div 10) @ [''0123456789'' ! nat (n mod 10)])"
  by pat_completeness auto
termination
  by (relation "measure nat") auto

declare int_digits.simps [simp del]

definition zfill :: "nat \<Rightarrow> string \<Rightarrow> string" where
  "zfill w s = replicate (w - length s) (CHR ''0'') @ s"

text \<open>
  The digits of \<^verbatim>\<open>abs(v)\<close> in fixed-point notation with \<open>p\<close> digits after the point, the
  last one rounded (ties to even); no point when \<open>p = 0\<close>.
\<close>

definition fixed_digits :: "rat \<Rightarrow> nat \<Rightarrow> string" where
  "fixed_digits v p =
     (let n = round_half_even (\<bar>v\<bar> * 10 ^ p)
      in int_digits (n div 10 ^ p) @
         (if p = 0 then [] else CHR ''.'' # zfill p (int_digits (n mod 10 ^ p))))"

text \<open>
  The format specifications \<^verbatim>\<open>.{p}f\<close>, \<^verbatim>\<open>+.{p}f\<close> and \<^verbatim>\<open>0{w}.{p}f\<close>: \<open>force_sign\<close> is the
  flag \<^verbatim>\<open>+\<close>, \<open>w\<close> the width filled with zeros after the sign (\<open>0\<close>: no width).
\<close>

definition format_f :: "bool \<Rightarrow> nat \<Rightarrow> nat \<Rightarrow> rat \<Rightarrow> string" where
  "format_f force_sign w p v =
     (let sgn = (if v < 0 then ''-'' else if force_sign then ''+'' else [])
      in sgn @ zfill (w - length sgn) (fixed_digits v p))"

text \<open>The format specification \<^verbatim>\<open>0{w}d\<close> of an integer.\<close>

definition format_d :: "nat \<Rightarrow> int \<Rightarrow> string" where
  "format_d w i =
     (if i < 0 then CHR ''-'' # zfill (w - 1) (int_digits (- i))
      else zfill w (int_digits i))"

section \<open>Sexagesimal arithmetic\<close>

text \<open>\<^verbatim>\<open>hms_to_degrees\<close> of \<^verbatim>\<open>src/python/coordinate_parser.py\<close>.\<close>

definition hms_to_degrees :: "string \<Rightarrow> string \<Rightarrow> string \<Rightarrow> error + rat" where
  "hms_to_degrees h m s =
     err_bind (to_float h) (\<lambda>hh.
     err_bind (to_float m) (\<lambda>mm.
     err_bind (to_float s) (\<lambda>ss.
       if \<not> (0 \<le> hh \<and> hh < 24) then Inl (HoursRange hh)
       else if \<not> (0 \<le> mm \<and> mm < 60) then Inl (MinutesRange mm)
       else if \<not> (0 \<le> ss \<and> ss < 60) then Inl (SecondsRange ss)
       else Inr (hh + mm / 60 + ss / 3600))))"

text \<open>\<^verbatim>\<open>hms_to_degrees\<close> of \<^verbatim>\<open>src/coordinate_parser.py\<close>.\<close>

definition hms_to_degrees_re :: "string \<Rightarrow> string \<Rightarrow> string \<Rightarrow> error + rat" where
  "hms_to_degrees_re hours minutes seconds =
     err_bind (to_float hours) (\<lambda>hours.
     err_bind (to_float minutes) (\<lambda>minutes.
     err_bind (to_float seconds) (\<lambda>seconds.
       if \<not> (0 \<le> hours \<and> hours < 24) then Inl (HoursRange hours)
       else if \<not> (0 \<le> minutes \<and> minutes < 60) then Inl (MinutesRange minutes)
       else if \<not> (0 \<le> seconds \<and> seconds < 60) then Inl (SecondsRange seconds)
       else Inr (hours + minutes / 60 + seconds / 3600))))"

text \<open>
  \<^verbatim>\<open>dms_to_degrees\<close> of \<^verbatim>\<open>src/python/coordinate_parser.py\<close>: the sign is read from
  the text. \<open>sign_and_digits\<close> is its first block, which sets \<^verbatim>\<open>sign\<close> and \<^verbatim>\<open>d_str\<close>.
\<close>

definition sign_and_digits :: "string \<Rightarrow> rat \<times> string" where
  "sign_and_digits d =
     (let d_str = strip d
      in case d_str of
           [] \<Rightarrow> (1, d_str)
         | c # r \<Rightarrow> if c = CHR ''-'' then (- 1, r)
                    else if c = CHR ''+'' then (1, r)
                    else (1, d_str))"

definition dms_to_degrees :: "string \<Rightarrow> string \<Rightarrow> string \<Rightarrow> error + rat" where
  "dms_to_degrees d m s =
     (let (sign, d_str) = sign_and_digits d
      in err_bind (if d_str \<noteq> [] then to_float d_str else Inr 0) (\<lambda>dd.
         err_bind (to_float m) (\<lambda>mm.
         err_bind (to_float s) (\<lambda>ss.
           if \<not> (0 \<le> mm \<and> mm < 60) then Inl (MinutesRange mm)
           else if \<not> (0 \<le> ss \<and> ss < 60) then Inl (SecondsRange ss)
           else Inr (sign * (dd + mm / 60 + ss / 3600))))))"

text \<open>
  \<^verbatim>\<open>dms_to_degrees\<close> of \<^verbatim>\<open>src/coordinate_parser.py\<close>: the sign is read from the
  number. The \<^verbatim>\<open>except\<close> branch runs when \<^verbatim>\<open>float(degrees)\<close> fails.
\<close>

definition dms_to_degrees_re :: "string \<Rightarrow> string \<Rightarrow> string \<Rightarrow> error + rat" where
  "dms_to_degrees_re degrees minutes seconds =
     err_bind
       (case py_float degrees of
          Some v \<Rightarrow> Inr v
        | None \<Rightarrow>
            (case degrees of
               [] \<Rightarrow> to_float degrees
             | c # r \<Rightarrow>
                 if c = CHR ''+'' \<or> c = CHR ''-'' then
                   err_bind (to_float r) (\<lambda>v. Inr ((if c = CHR ''-'' then - 1 else 1) * v))
                 else to_float degrees))
       (\<lambda>degrees.
     err_bind (to_float minutes) (\<lambda>minutes.
     err_bind (to_float seconds) (\<lambda>seconds.
       (let sign = (if degrees < 0 then - 1 else 1);
            degrees = \<bar>degrees\<bar>
        in if \<not> (0 \<le> minutes \<and> minutes < 60) then Inl (MinutesRange minutes)
           else if \<not> (0 \<le> seconds \<and> seconds < 60) then Inl (SecondsRange seconds)
           else Inr (sign * (degrees + minutes / 60 + seconds / 3600))))))"

section \<open>The split-based converter (\<^verbatim>\<open>src/python/coordinate_parser.py\<close>)\<close>

definition determine_precision :: "string \<Rightarrow> nat" where
  "determine_precision value_str =
     (if CHR ''.'' \<notin> set value_str then 0
      else length (last (split_char (CHR ''.'') value_str)))"

abbreviation Lit :: "char \<Rightarrow> ritem" where
  "Lit c \<equiv> One (Chars [c])"

text \<open>\<^verbatim>\<open>[,\s]\<close>\<close>

definition comma_or_space :: "char \<Rightarrow> bool" where
  "comma_or_space c = (c = CHR '','' \<or> is_space c)"

text \<open>\<^verbatim>\<open>^(.*?)([+\-]\d.*)$\<close>\<close>

definition sign_split_pattern :: "ritem list" where
  "sign_split_pattern =
     [GOpen 1, LazyStar Dot, GClose 1,
      GOpen 2, One (Chars ''+-''), One digit, Star Dot, GClose 2, Eos]"

definition split_ra_dec :: "string \<Rightarrow> string \<Rightarrow> error + (string \<times> string)" where
  "split_ra_dec input_str0 in_fmt =
     (let input_str = strip input_str0
      in if in_fmt = ''casa'' then
           (case re_split comma_or_space input_str of
              [a, b] \<Rightarrow> Inr (a, b)
            | parts \<Rightarrow> Inl (CasaTokens parts))
         else if in_fmt = ''hmsdms'' then
           (case re_match 2 sign_split_pattern
                   (map (\<lambda>c. if c = CHR '','' then CHR '' '' else c) input_str) of
              Some g \<Rightarrow> Inr (strip (g ! 0), strip (g ! 1))
            | None \<Rightarrow>
                (case re_split is_space input_str of
                   [a, b] \<Rightarrow> Inr (a, b)
                 | parts \<Rightarrow> Inl (CannotSplitHmsdms input_str)))
         else
           (case re_split comma_or_space input_str of
              [a, b] \<Rightarrow> Inr (a, b)
            | parts \<Rightarrow>
                (case re_match 2 sign_split_pattern input_str of
                   Some g \<Rightarrow> Inr (strip (g ! 0), strip (g ! 1))
                 | None \<Rightarrow> Inl (CannotSplitDegrees input_str))))"

definition parse_ra_colon_strict :: "string \<Rightarrow> error + (string \<times> string \<times> string)" where
  "parse_ra_colon_strict ra_str =
     (case split_char (CHR '':'') ra_str of
        [a, b, c] \<Rightarrow> Inr (a, b, c)
      | parts \<Rightarrow> Inl (CasaRaFields ra_str))"

text \<open>\<^verbatim>\<open>^([+\-])(\d{1,3})\.(\d{1,2})\.(\d{1,2}(\.\d+)?)$\<close>\<close>

definition casa_dotted_pattern :: "ritem list" where
  "casa_dotted_pattern =
     [GOpen 1, One (Chars ''+-''), GClose 1,
      GOpen 2, Between digit 1 3, GClose 2, Lit (CHR ''.''),
      GOpen 3, Between digit 1 2, GClose 3, Lit (CHR ''.''),
      GOpen 4, Between digit 1 2, Opt [GOpen 5, Lit (CHR ''.''), Plus digit, GClose 5], GClose 4,
      Eos]"

definition parse_casa_dotted_dec :: "string \<Rightarrow> error + (rat \<times> nat)" where
  "parse_casa_dotted_dec dec_str0 =
     (let dec_str = strip dec_str0
      in case re_match 5 casa_dotted_pattern dec_str of
           None \<Rightarrow> Inl (InvalidCasaDec dec_str)
         | Some g \<Rightarrow>
             (let sign_char = g ! 0; d = g ! 1; mm = g ! 2; ss_str = g ! 3;
                  sign = (if sign_char = ''-'' then - 1 else 1)
              in err_bind (to_float d) (\<lambda>dd.
                 err_bind (to_float mm) (\<lambda>mmf.
                 err_bind (to_float ss_str) (\<lambda>ssf.
                   (let prec = determine_precision ss_str;
                        decval = sign * (dd + mmf / 60 + ssf / 3600)
                    in Inr (decval, prec)))))))"

text \<open>The characters of \<^verbatim>\<open>[hHdD<deg>mM\'sS"]\<close>, \<^verbatim>\<open><deg>\<close> being the degree sign.\<close>

definition unit_marker :: "char \<Rightarrow> bool" where
  "unit_marker c = (c \<in> set [CHR ''h'', CHR ''H'', CHR ''d'', CHR ''D'', CHR 0xB0, CHR ''m'',
                               CHR ''M'', CHR 0x27, CHR ''s'', CHR ''S'', CHR 0x22])"

text \<open>\<^verbatim>\<open>[:\s]\<close>\<close>

definition colon_or_space :: "char \<Rightarrow> bool" where
  "colon_or_space c = (c = CHR '':'' \<or> is_space c)"

text \<open>The list \<^verbatim>\<open>tokens\<close> of \<^verbatim>\<open>parse_hms_or_dms\<close>.\<close>

definition hms_tokens :: "string \<Rightarrow> string list" where
  "hms_tokens coord_str =
     (let cleaned = map (\<lambda>c. if unit_marker c then CHR '' '' else c) coord_str;
          tokens = re_split colon_or_space (strip cleaned)
      in filter (\<lambda>t. t \<noteq> []) tokens)"

definition parse_hms_or_dms :: "string \<Rightarrow> string \<times> string \<times> string" where
  "parse_hms_or_dms coord_str =
     (case hms_tokens coord_str of
        [] \<Rightarrow> (''0'', ''0'', ''0'')
      | [t0] \<Rightarrow> (t0, ''0'', ''0'')
      | [t0, t1] \<Rightarrow> (t0, t1, ''0'')
      | t0 # t1 # t2 # rest \<Rightarrow> (t0, t1, t2))"

definition parse_to_degrees :: "string \<Rightarrow> bool \<Rightarrow> string \<Rightarrow> error + (rat \<times> nat)" where
  "parse_to_degrees coord_str0 is_ra input_format =
     (let coord_str = strip coord_str0
      in if input_format = ''casa'' then
           (if is_ra then
              err_bind (parse_ra_colon_strict coord_str) (\<lambda>(h, m, s).
                (let prec = determine_precision s
                 in err_bind (hms_to_degrees h m s) (\<lambda>v. Inr (v * 15, prec))))
            else parse_casa_dotted_dec coord_str)
         else if input_format = ''hmsdms'' then
           (let (h, m, s) = parse_hms_or_dms coord_str;
                inprec = determine_precision s
            in err_bind (if is_ra then err_bind (hms_to_degrees h m s) (\<lambda>v. Inr (v * 15))
                         else dms_to_degrees h m s)
                 (\<lambda>val. Inr (val, inprec)))
         else
           (if CHR '':'' \<in> set coord_str then
              (let (d, mm, ss) = parse_hms_or_dms coord_str;
                   inprec = determine_precision ss
               in err_bind (dms_to_degrees d mm ss) (\<lambda>val. Inr (val, inprec)))
            else
              (case py_float coord_str of
                 None \<Rightarrow> Inl (CannotParseDecimal coord_str)
               | Some val \<Rightarrow> Inr (val, determine_precision coord_str))))"

definition format_degrees :: "rat \<Rightarrow> nat \<Rightarrow> bool \<Rightarrow> string" where
  "format_degrees val precision force_sign = format_f force_sign 0 precision val"

definition two_digit_left :: "rat \<Rightarrow> nat \<Rightarrow> error + string" where
  "two_digit_left val precision =
     (let val_rounded = py_round val precision;
          base_str = format_f False 0 precision val_rounded
      in if CHR ''.'' \<in> set base_str then
           (case split_char (CHR ''.'') base_str of
              [int_part, frac_part] \<Rightarrow>
                if length int_part = 1 then Inr (''0'' @ int_part @ ''.'' @ frac_part)
                else Inr base_str
            | parts \<Rightarrow> Inl UnpackError)
         else if length base_str = 1 then Inr (''0'' @ base_str)
         else Inr base_str)"

definition degrees_to_hms :: "rat \<Rightarrow> nat \<Rightarrow> string \<Rightarrow> error + string" where
  "degrees_to_hms deg_val precision delimiter =
     (let hours = py_mod (deg_val / 15) 24;
          hh = py_int hours;
          remainder = hours - of_int hh;
          mm = py_int (remainder * 60);
          remainder = remainder * 60 - of_int mm;
          ss = remainder * 60
      in err_bind (if 0 < precision then two_digit_left ss precision
                   else Inr (format_d 2 (round_half_even ss)))
           (\<lambda>s_str. Inr (format_d 2 hh @ delimiter @ format_d 2 mm @ delimiter @ s_str)))"

definition degrees_to_dms :: "rat \<Rightarrow> nat \<Rightarrow> string \<Rightarrow> error + string" where
  "degrees_to_dms deg_val precision delimiter =
     (let sign = (if deg_val < 0 then ''-'' else ''+'');
          v = \<bar>deg_val\<bar>;
          dd = py_int v;
          remainder = v - of_int dd;
          mm = py_int (remainder * 60);
          remainder = remainder * 60 - of_int mm;
          ss = remainder * 60
      in err_bind (if 0 < precision then two_digit_left ss precision
                   else Inr (format_d 2 (round_half_even ss)))
           (\<lambda>s_str. Inr (sign @ format_d 2 dd @ delimiter @ format_d 2 mm @ delimiter @ s_str)))"

definition degrees_to_casa_dec :: "rat \<Rightarrow> nat \<Rightarrow> string" where
  "degrees_to_casa_dec deg_val precision =
     (let sign = (if deg_val < 0 then ''-'' else ''+'');
          v = \<bar>deg_val\<bar>;
          dd = py_int v;
          remainder = v - of_int dd;
          mm = py_int (remainder * 60);
          remainder = remainder * 60 - of_int mm;
          ss = py_round (remainder * 60) precision;
          s_str = (if 0 < precision then format_f False 2 precision ss
                   else format_d 2 (py_int ss))
      in sign @ format_d 2 dd @ ''.'' @ format_d 2 mm @ ''.'' @ s_str)"

text \<open>\<^verbatim>\<open>\b[Jj]\s*2000\.?0?\b\s*\<close>\<close>

definition epoch_pattern :: "ritem list" where
  "epoch_pattern =
     [WordB, One (Chars ''Jj''), Star space, Lit (CHR ''2''), Lit (CHR ''0''), Lit (CHR ''0''),
      Lit (CHR ''0''), Maybe (Chars ''.''), Maybe (Chars ''0''), WordB, Star space]"

text \<open>The two statements that clean the input, the same in both files.\<close>

definition clean_input :: "string \<Rightarrow> string" where
  "clean_input input_string = strip (re_sub_empty epoch_pattern None (strip input_string))"

text \<open>
  \<^verbatim>\<open>ra_dec_converter\<close>. \<open>None\<close> for \<open>internal_delimiter\<close>, \<open>ra_precision\<close> or
  \<open>dec_precision\<close> is Python's \<^verbatim>\<open>None\<close>; a precision is a natural number.
\<close>

definition ra_dec_converter ::
  "string \<Rightarrow> string \<Rightarrow> string \<Rightarrow> string option \<Rightarrow> string \<Rightarrow> bool \<Rightarrow> bool
     \<Rightarrow> nat option \<Rightarrow> nat option \<Rightarrow> error + string" where
  "ra_dec_converter input_string0 input_format output_format internal_delimiter0
       ra_dec_delimiter ra_only dec_only ra_precision dec_precision =
     (let internal_delimiter =
            (case internal_delimiter0 of
               None \<Rightarrow> if output_format = ''hmsdms'' then '':'' else '' ''
             | Some d \<Rightarrow> d);
          input_string = clean_input input_string0
      in err_bind (split_ra_dec input_string input_format) (\<lambda>(ra_part, dec_part).
         err_bind (parse_to_degrees ra_part True input_format) (\<lambda>(ra_val, ra_inprec).
         err_bind (parse_to_degrees dec_part False input_format) (\<lambda>(dec_val, dec_inprec).
           if \<not> (0 \<le> ra_val \<and> ra_val < 360) then Inl (RaRange ra_val)
           else if \<not> (- 90 \<le> dec_val \<and> dec_val \<le> 90) then Inl (DecRange dec_val)
           else
             (let final_ra_precision = (case ra_precision of Some p \<Rightarrow> p | None \<Rightarrow> ra_inprec);
                  final_dec_precision = (case dec_precision of Some p \<Rightarrow> p | None \<Rightarrow> dec_inprec)
              in err_bind
                   (if output_format = ''degrees'' then
                      Inr (format_degrees ra_val final_ra_precision False,
                           format_degrees dec_val final_dec_precision True)
                    else if output_format = ''hmsdms'' then
                      err_bind (degrees_to_hms ra_val final_ra_precision internal_delimiter) (\<lambda>ra_str.
                      err_bind (degrees_to_dms dec_val final_dec_precision internal_delimiter) (\<lambda>dec_str.
                        Inr (ra_str, dec_str)))
                    else
                      err_bind (degrees_to_hms ra_val final_ra_precision '':'') (\<lambda>ra_str.
                        Inr (ra_str, degrees_to_casa_dec dec_val final_dec_precision)))
                   (\<lambda>(ra_str, dec_str).
                      if ra_only then Inr ra_str
                      else if dec_only then Inr dec_str
                      else Inr (ra_str @ ra_dec_delimiter @ dec_str)))))))"

section \<open>The regular-expression based converter (\<^verbatim>\<open>src/coordinate_parser.py\<close>)\<close>

abbreviation sign_class :: cclass where
  "sign_class \<equiv> Chars ''+-''"

abbreviation digit_or_dot :: cclass where
  "digit_or_dot \<equiv> Chars ''0123456789.''"

text \<open>\<^verbatim>\<open>[,\s]\<close>\<close>

abbreviation comma_space :: cclass where
  "comma_space \<equiv> Chars [CHR '','', CHR 0x09, CHR 0x0A, CHR 0x0B, CHR 0x0C, CHR 0x0D, CHR 0x1C,
                         CHR 0x1D, CHR 0x1E, CHR 0x1F, CHR 0x20, CHR 0x85, CHR 0xA0]"

abbreviation minute_mark :: cclass where
  "minute_mark \<equiv> Chars [CHR ''m'', CHR ''M'', CHR 0x27]"

abbreviation second_mark :: cclass where
  "second_mark \<equiv> Chars [CHR ''s'', CHR ''S'', CHR 0x22]"

text \<open>Decimal degrees: \<^verbatim>\<open>^([+-]?\d{1,3}\.?\d*)\s*[,\s]+([+-]?\d{1,2}\.?\d*)$\<close>\<close>

definition pattern_decimal :: "ritem list" where
  "pattern_decimal =
     [GOpen 1, Maybe sign_class, Between digit 1 3, Maybe (Chars ''.''), Star digit, GClose 1,
      Star space, Plus comma_space,
      GOpen 2, Maybe sign_class, Between digit 1 2, Maybe (Chars ''.''), Star digit, GClose 2,
      Eos]"

text \<open>
  HMS/DMS with colons:
  \<^verbatim>\<open>^(\d{1,3})\s*:\s*(\d{1,2})\s*:\s*([\d\.]+)\s*[,\s]+([+-]?\d{1,3})\s*:\s*(\d{1,2})\s*:\s*([\d\.]+)$\<close>
\<close>

definition pattern_colons :: "ritem list" where
  "pattern_colons =
     [GOpen 1, Between digit 1 3, GClose 1, Star space, Lit (CHR '':''), Star space,
      GOpen 2, Between digit 1 2, GClose 2, Star space, Lit (CHR '':''), Star space,
      GOpen 3, Plus digit_or_dot, GClose 3, Star space, Plus comma_space,
      GOpen 4, Maybe sign_class, Between digit 1 3, GClose 4, Star space, Lit (CHR '':''), Star space,
      GOpen 5, Between digit 1 2, GClose 5, Star space, Lit (CHR '':''), Star space,
      GOpen 6, Plus digit_or_dot, GClose 6, Eos]"

text \<open>
  HMS/DMS with spaces:
  \<^verbatim>\<open>^(\d{1,3})\s+(\d{1,2})\s+([\d\.]+)\s*[,\s]+([+-]?\d{1,3})\s+(\d{1,2})\s+([\d\.]+)$\<close>
\<close>

definition pattern_spaces :: "ritem list" where
  "pattern_spaces =
     [GOpen 1, Between digit 1 3, GClose 1, Plus space,
      GOpen 2, Between digit 1 2, GClose 2, Plus space,
      GOpen 3, Plus digit_or_dot, GClose 3, Star space, Plus comma_space,
      GOpen 4, Maybe sign_class, Between digit 1 3, GClose 4, Plus space,
      GOpen 5, Between digit 1 2, GClose 5, Plus space,
      GOpen 6, Plus digit_or_dot, GClose 6, Eos]"

text \<open>
  HMS/DMS with unit markers (\<^verbatim>\<open><deg>\<close> is the degree sign):
  \<^verbatim>\<open>^(\d{1,3})\s*([hHdD<deg>])\s*(\d{1,2})\s*[mM\']\s*([\d\.]+)\s*[sS"]\s*[,\s]+\<close>
  \<^verbatim>\<open>([+-]?\d{1,3})\s*[dD<deg>]\s*(\d{1,2})\s*[mM\']\s*([\d\.]+)\s*[sS"]$\<close>
\<close>

definition pattern_markers :: "ritem list" where
  "pattern_markers =
     [GOpen 1, Between digit 1 3, GClose 1, Star space,
      GOpen 2, One (Chars [CHR ''h'', CHR ''H'', CHR ''d'', CHR ''D'', CHR 0xB0]), GClose 2, Star space,
      GOpen 3, Between digit 1 2, GClose 3, Star space, One minute_mark, Star space,
      GOpen 4, Plus digit_or_dot, GClose 4, Star space, One second_mark, Star space,
      Plus comma_space,
      GOpen 5, Maybe sign_class, Between digit 1 3, GClose 5, Star space,
      One (Chars [CHR ''d'', CHR ''D'', CHR 0xB0]), Star space,
      GOpen 6, Between digit 1 2, GClose 6, Star space, One minute_mark, Star space,
      GOpen 7, Plus digit_or_dot, GClose 7, Star space, One second_mark, Eos]"

text \<open>
  Compact format:
  \<^verbatim>\<open>^[JjEe]?\s*(\d{2})\s*(\d{2})\s*(\d+\.?\d*)\s*([+-])\s*(\d{2})\s*(\d{2})\s*(\d+\.?\d*)$\<close>
\<close>

definition pattern_compact :: "ritem list" where
  "pattern_compact =
     [Maybe (Chars ''JjEe''), Star space,
      GOpen 1, Between digit 2 2, GClose 1, Star space,
      GOpen 2, Between digit 2 2, GClose 2, Star space,
      GOpen 3, Plus digit, Maybe (Chars ''.''), Star digit, GClose 3, Star space,
      GOpen 4, One sign_class, GClose 4, Star space,
      GOpen 5, Between digit 2 2, GClose 5, Star space,
      GOpen 6, Between digit 2 2, GClose 6, Star space,
      GOpen 7, Plus digit, Maybe (Chars ''.''), Star digit, GClose 7, Eos]"

text \<open>
  CASA format:
  \<^verbatim>\<open>^(\d{2}):(\d{2}):(\d+\.?\d*)\s+([+-]?\d{1,3})\.(\d{1,2})\.(\d{1,2}\.?\d*)$\<close>
\<close>

definition pattern_casa :: "ritem list" where
  "pattern_casa =
     [GOpen 1, Between digit 2 2, GClose 1, Lit (CHR '':''),
      GOpen 2, Between digit 2 2, GClose 2, Lit (CHR '':''),
      GOpen 3, Plus digit, Maybe (Chars ''.''), Star digit, GClose 3, Plus space,
      GOpen 4, Maybe sign_class, Between digit 1 3, GClose 4, Lit (CHR ''.''),
      GOpen 5, Between digit 1 2, GClose 5, Lit (CHR ''.''),
      GOpen 6, Between digit 1 2, Maybe (Chars ''.''), Star digit, GClose 6, Eos]"

text \<open>The list \<^verbatim>\<open>patterns\<close>, each pattern with its number of groups.\<close>

definition patterns :: "(nat \<times> ritem list) list" where
  "patterns = [(2, pattern_decimal), (6, pattern_colons), (6, pattern_spaces),
               (7, pattern_markers), (7, pattern_compact), (6, pattern_casa)]"

text \<open>\<^verbatim>\<open>^[+-]?\d+\.\d+\.\d+(?:\.\d+)?$\<close>\<close>

definition casa_dec_pattern :: "ritem list" where
  "casa_dec_pattern =
     [Maybe sign_class, Plus digit, Lit (CHR ''.''), Plus digit, Lit (CHR ''.''), Plus digit,
      Opt [Lit (CHR ''.''), Plus digit], Eos]"

text \<open>\<^verbatim>\<open>degrees_to_hms\<close> of \<^verbatim>\<open>src/coordinate_parser.py\<close>; its argument is in hours.\<close>

definition degrees_to_hms_re :: "rat \<Rightarrow> nat \<Rightarrow> string \<Rightarrow> string" where
  "degrees_to_hms_re hours0 precision delimiter =
     (let hours = py_mod hours0 24;
          h = py_int hours;
          remainder = hours - of_int h;
          m = py_int (remainder * 60);
          remainder = remainder * 60 - of_int m;
          s = remainder * 60
      in if precision = 0
         then format_d 2 h @ delimiter @ format_d 2 m @ delimiter @ format_f False 0 0 s
         else format_d 2 h @ delimiter @ format_d 2 m @ delimiter @ format_f False 5 precision s)"

definition degrees_to_dms_re :: "rat \<Rightarrow> nat \<Rightarrow> string \<Rightarrow> string" where
  "degrees_to_dms_re degrees0 precision delimiter =
     (let sign = (if degrees0 < 0 then ''-'' else ''+'');
          degrees = \<bar>degrees0\<bar>;
          d = py_int degrees;
          remainder = degrees - of_int d;
          m = py_int (remainder * 60);
          remainder = remainder * 60 - of_int m;
          s = remainder * 60
      in if precision = 0
         then sign @ format_d 2 d @ delimiter @ format_d 2 m @ delimiter @ format_f False 2 0 s
         else sign @ format_d 2 d @ delimiter @ format_d 2 m @ delimiter @ format_f False 5 precision s)"

text \<open>
  The body of the loop of \<^verbatim>\<open>ra_dec_converter\<close> up to the computation of \<^verbatim>\<open>ra\<close> and
  \<^verbatim>\<open>dec\<close>, for the groups of the pattern that matched.
\<close>

definition groups_to_ra_dec :: "string \<Rightarrow> string \<Rightarrow> string list \<Rightarrow> error + (rat \<times> rat)" where
  "groups_to_ra_dec input_string input_format groups =
     (if length groups = 2 then
        (if input_format = ''hmsdms'' then Inl AppearsDecimal
         else err_bind (to_float (groups ! 0)) (\<lambda>ra.
              err_bind (to_float (groups ! 1)) (\<lambda>dec. Inr (ra, dec))))
      else if length groups = 6 then
        (case split_ws input_string of
           [] \<Rightarrow> Inl IndexError
         | [w] \<Rightarrow> Inl IndexError
         | w # dec_part # ws \<Rightarrow>
             (let is_casa_format = (re_match 0 casa_dec_pattern dec_part \<noteq> None)
              in err_bind (to_float (groups ! 0)) (\<lambda>g0.
                 (let is_hms = ((0 \<le> g0 \<and> g0 < 24) \<and>
                                (CHR '':'' \<in> set input_string \<or> CHR '' '' \<in> set (strip input_string)))
                  in if input_format = ''hmsdms'' \<and> \<not> is_hms then Inl AppearsDMS
                     else if input_format = ''degrees'' \<and> is_hms then Inl AppearsHMS
                     else if is_casa_format \<and> input_format \<noteq> ''hmsdms'' then Inl CasaOnlyHmsdms
                     else if is_hms \<or> is_casa_format then
                       err_bind (hms_to_degrees_re (groups ! 0) (groups ! 1) (groups ! 2)) (\<lambda>ra.
                       err_bind (dms_to_degrees_re (groups ! 3) (groups ! 4) (groups ! 5)) (\<lambda>dec.
                         Inr (ra, dec)))
                     else
                       err_bind (dms_to_degrees_re (groups ! 0) (groups ! 1) (groups ! 2)) (\<lambda>ra.
                       err_bind (dms_to_degrees_re (groups ! 3) (groups ! 4) (groups ! 5)) (\<lambda>dec.
                         Inr (ra, dec)))))))
      else
        (if groups ! 1 \<in> set [''h'', ''H'', ''d'', ''D'', [CHR 0xB0]] then
           (let has_hour_marker = (groups ! 1 = ''h'' \<or> groups ! 1 = ''H'');
                has_degree_marker = (groups ! 1 \<in> set [''d'', ''D'', [CHR 0xB0]])
            in if input_format = ''hmsdms'' \<and> \<not> has_hour_marker then Inl (ExpectedHMS input_string)
               else if input_format = ''degrees'' \<and> \<not> has_degree_marker
                 then Inl (ExpectedDegree input_string)
               else
                 err_bind (if has_hour_marker
                           then hms_to_degrees_re (groups ! 0) (groups ! 2) (groups ! 3)
                           else dms_to_degrees_re (groups ! 0) (groups ! 2) (groups ! 3)) (\<lambda>ra.
                 err_bind (dms_to_degrees_re (groups ! 4) (groups ! 5) (groups ! 6)) (\<lambda>dec.
                   Inr (ra, dec))))
         else
           err_bind (if input_format = ''hmsdms''
                     then hms_to_degrees_re (groups ! 0) (groups ! 1) (groups ! 2)
                     else dms_to_degrees_re (groups ! 0) (groups ! 1) (groups ! 2)) (\<lambda>ra.
           err_bind (dms_to_degrees_re (groups ! 3 @ groups ! 4) (groups ! 5) (groups ! 6)) (\<lambda>dec.
             Inr (ra, dec)))))"

text \<open>The rest of the loop body: scaling, range validation, formatting, selection.\<close>

definition finish_re ::
  "string \<Rightarrow> string \<Rightarrow> string \<Rightarrow> string \<Rightarrow> bool \<Rightarrow> bool \<Rightarrow> nat \<Rightarrow> nat \<Rightarrow> rat \<Rightarrow> rat
     \<Rightarrow> error + string" where
  "finish_re input_format output_format ra_dec_delimiter internal_delimiter ra_only dec_only
       ra_precision dec_precision ra0 dec =
     (let ra1 = (if input_format = ''hmsdms'' then ra0 * 15 else ra0)
      in err_bind
           (if output_format = ''degrees'' then
              (if \<not> (0 \<le> ra1 \<and> ra1 < 360) then Inl (RaRange ra1) else Inr ra1)
            else
              (let ra2 = ra1 / 15
               in if \<not> (0 \<le> ra2 \<and> ra2 < 24) then Inl (RaHoursRange ra2) else Inr ra2))
           (\<lambda>ra.
              if \<not> (- 90 \<le> dec \<and> dec \<le> 90) then Inl (DecRange dec)
              else
                (let (ra_str, dec_str) =
                       (if output_format = ''degrees''
                        then (format_f False 0 ra_precision ra, format_f True 0 dec_precision dec)
                        else (degrees_to_hms_re ra ra_precision internal_delimiter,
                              degrees_to_dms_re dec dec_precision internal_delimiter))
                 in if ra_only then Inr ra_str
                    else if dec_only then Inr dec_str
                    else Inr (ra_str @ ra_dec_delimiter @ dec_str))))"

text \<open>The loop over \<^verbatim>\<open>patterns\<close>: the first pattern that matches decides the result.\<close>

fun try_patterns ::
  "(nat \<times> ritem list) list \<Rightarrow> string \<Rightarrow> string \<Rightarrow> string \<Rightarrow> string \<Rightarrow> string \<Rightarrow> bool \<Rightarrow> bool
     \<Rightarrow> nat \<Rightarrow> nat \<Rightarrow> error + string" where
  "try_patterns [] input_string input_format output_format ra_dec_delimiter internal_delimiter
       ra_only dec_only ra_precision dec_precision = Inl NotRecognized"
| "try_patterns ((n, pattern) # ps) input_string input_format output_format ra_dec_delimiter
       internal_delimiter ra_only dec_only ra_precision dec_precision =
     (case re_match n pattern input_string of
        None \<Rightarrow> try_patterns ps input_string input_format output_format ra_dec_delimiter
                  internal_delimiter ra_only dec_only ra_precision dec_precision
      | Some groups \<Rightarrow>
          err_bind (groups_to_ra_dec input_string input_format groups) (\<lambda>(ra, dec).
            finish_re input_format output_format ra_dec_delimiter internal_delimiter ra_only
              dec_only ra_precision dec_precision ra dec))"

text \<open>\<^verbatim>\<open>ra_dec_converter\<close> of \<^verbatim>\<open>src/coordinate_parser.py\<close>.\<close>

definition ra_dec_converter_re ::
  "string \<Rightarrow> string \<Rightarrow> string \<Rightarrow> string \<Rightarrow> string \<Rightarrow> bool \<Rightarrow> bool \<Rightarrow> nat option \<Rightarrow> nat option
     \<Rightarrow> error + string" where
  "ra_dec_converter_re input_string input_format output_format ra_dec_delimiter
       internal_delimiter ra_only dec_only ra_precision0 dec_precision0 =
     (if input_format \<notin> set [''hmsdms'', ''degrees''] then Inl BadInputFormat
      else
        err_bind
          (if output_format = ''degrees'' then
             Inr (case ra_precision0 of None \<Rightarrow> 7 | Some p \<Rightarrow> p,
                  case dec_precision0 of None \<Rightarrow> 6 | Some p \<Rightarrow> p)
           else if output_format = ''hmsdms'' then
             Inr (case ra_precision0 of None \<Rightarrow> 2 | Some p \<Rightarrow> p,
                  case dec_precision0 of None \<Rightarrow> 2 | Some p \<Rightarrow> p)
           else Inl BadOutputFormat)
          (\<lambda>(ra_precision, dec_precision).
             try_patterns patterns (clean_input input_string) input_format output_format
               ra_dec_delimiter internal_delimiter ra_only dec_only ra_precision dec_precision))"

section \<open>Verified properties\<close>

subsection \<open>Helper facts\<close>

lemma err_bind_simps:
  "err_bind (Inl e) f = Inl e"
  "err_bind (Inr v) f = f v"
  by (simp_all add: err_bind_def)

lemma to_float_Some: "py_float s = Some v \<Longrightarrow> to_float s = Inr v"
  by (simp add: to_float_def)

lemma to_float_None: "py_float s = None \<Longrightarrow> to_float s = Inl (FloatError s)"
  by (simp add: to_float_def)

subsection \<open>Digits and fixed-point formatting\<close>

lemma digit_char_is_digit: "n < 10 \<Longrightarrow> is_digit (''0123456789'' ! n)"
proof -
  assume "n < 10"
  then have "n \<in> {0,1,2,3,4,5,6,7,8,9}" by auto
  then show ?thesis by (auto simp: is_digit_def)
qed

lemma int_digits_all_digits: "0 \<le> n \<Longrightarrow> list_all is_digit (int_digits n)"
proof (induction n rule: int_digits.induct)
  case (1 n)
  show ?case
  proof (cases "n < 10")
    case True
    with 1(2) have "nat n < 10" by simp
    then show ?thesis using True by (subst int_digits.simps) (simp add: digit_char_is_digit)
  next
    case False
    then have a: "0 \<le> n div 10" by simp
    have b: "nat (n mod 10) < 10" by simp
    show ?thesis using False 1(1)[OF False a] b
      by (subst int_digits.simps) (simp add: digit_char_is_digit)
  qed
qed

lemma int_digits_nonempty: "int_digits n \<noteq> []"
  by (subst int_digits.simps) simp

lemma int_digits_length: "0 \<le> n \<Longrightarrow> n < 10 ^ p \<Longrightarrow> 0 < p \<Longrightarrow> length (int_digits n) \<le> p"
proof (induction n arbitrary: p rule: int_digits.induct)
  case (1 n)
  show ?case
  proof (cases "n < 10")
    case True
    then show ?thesis using 1(4) by (subst int_digits.simps) simp
  next
    case False
    then obtain q where q: "p = Suc q" using 1(4) by (cases p) auto
    have "q \<noteq> 0" using False 1(3) q by (cases q) auto
    then have q0: "0 < q" by simp
    have "n < 10 ^ q * 10" using 1(3) q by simp
    then have "n div 10 < 10 ^ q" by (simp add: div_less_iff_less_mult)
    moreover have "0 \<le> n div 10" using 1(2) by simp
    ultimately have "length (int_digits (n div 10)) \<le> q" using 1(1)[OF False _ _ q0] by simp
    then show ?thesis using False q by (subst int_digits.simps) simp
  qed
qed

lemma is_digit_not_dot: "is_digit c \<Longrightarrow> c \<noteq> CHR ''.''"
  by (auto simp: is_digit_def)

lemma is_digit_not_minus: "is_digit c \<Longrightarrow> c \<noteq> CHR ''-''"
  by (auto simp: is_digit_def)

lemma all_digits_no_dot: "list_all is_digit s \<Longrightarrow> CHR ''.'' \<notin> set s"
  by (induction s) (auto dest: is_digit_not_dot)

lemma round_half_even_nonneg: "0 \<le> x \<Longrightarrow> 0 \<le> round_half_even x"
  by (auto simp: round_half_even_def Let_def)



lemma zfill_digits:
  assumes "list_all is_digit s" and "length s \<le> p"
  shows "length (zfill p s) = p" and "list_all is_digit (zfill p s)"
proof -
  show "length (zfill p s) = p" using assms(2) by (simp add: zfill_def)
  have "is_digit (CHR ''0'')" by (simp add: is_digit_def)
  then show "list_all is_digit (zfill p s)"
    using assms(1) by (auto simp: zfill_def list_all_iff)
qed

lemma fixed_digits_shape:
  assumes "0 < p"
  shows "\<exists>ip fp. fixed_digits v p = ip @ CHR ''.'' # fp \<and> ip \<noteq> [] \<and> list_all is_digit ip
                 \<and> list_all is_digit fp \<and> length fp = p"
proof -
  define n where "n = round_half_even (\<bar>v\<bar> * 10 ^ p)"
  have n0: "0 \<le> n" unfolding n_def by (rule round_half_even_nonneg) simp
  have d0: "0 \<le> n div 10 ^ p" using n0 by (simp add: pos_imp_zdiv_nonneg_iff)
  have m0: "0 \<le> n mod 10 ^ p" and m1: "n mod 10 ^ p < 10 ^ p" by simp_all
  have fpd: "list_all is_digit (int_digits (n mod 10 ^ p))" using m0 by (rule int_digits_all_digits)
  have fpl: "length (int_digits (n mod 10 ^ p)) \<le> p" using m0 m1 assms by (rule int_digits_length)
  have eq: "fixed_digits v p = int_digits (n div 10 ^ p) @ CHR ''.'' # zfill p (int_digits (n mod 10 ^ p))"
    using assms by (simp add: fixed_digits_def Let_def n_def)
  show ?thesis
    using eq int_digits_nonempty int_digits_all_digits[OF d0] zfill_digits[OF fpd fpl]
    by blast
qed




lemma format_f_nowidth: "format_f fs 0 p v = (if v < 0 then ''-'' else if fs then ''+'' else []) @ fixed_digits v p"
  by (simp add: format_f_def zfill_def)

lemma format_f_shape:
  assumes "0 < p"
  shows "\<exists>a fp. format_f fs 0 p v = a @ CHR ''.'' # fp \<and> CHR ''.'' \<notin> set a \<and> a \<noteq> []
                \<and> list_all is_digit fp \<and> length fp = p"
proof -
  obtain ip fp where s: "fixed_digits v p = ip @ CHR ''.'' # fp" "ip \<noteq> []" "list_all is_digit ip"
      "list_all is_digit fp" "length fp = p"
    using fixed_digits_shape[OF assms] by blast
  let ?sg = "(if v < 0 then ''-'' else if fs then ''+'' else [])"
  have "format_f fs 0 p v = (?sg @ ip) @ CHR ''.'' # fp" by (simp add: format_f_nowidth s(1))
  moreover have "CHR ''.'' \<notin> set (?sg @ ip)" using all_digits_no_dot[OF s(3)] by simp
  moreover have "?sg @ ip \<noteq> []" using s(2) by simp
  ultimately show ?thesis using s(4,5) by blast
qed





subsection \<open>C4: hours, minutes and seconds to decimal hours\<close>


lemma py_float_12: "py_float ''12'' = Some 12"
  by code_simp




subsection \<open>C2: the dotted declination\<close>

text \<open>
  Claim C2. The string \<^verbatim>\<open>+17.43.31.222\<close> read as a declination of the input format
  \<^verbatim>\<open>casa\<close> has degrees 17, minutes 43, seconds 31.222 and the value
  \<open>17 + 43/60 + 31.222/3600\<close>; read under the input format \<^verbatim>\<open>degrees\<close> it is rejected
  with the \<^verbatim>\<open>ValueError\<close> "Cannot parse ... as decimal degrees". The regular-expression
  based converter rejects an input with this declination under \<^verbatim>\<open>degrees\<close> as well, by
  its guards on the HMS and the CASA form.
\<close>

theorem C2_dotted_casa_disambiguation:
  "re_match 5 casa_dotted_pattern ''+17.43.31.222'' = Some [''+'', ''17'', ''43'', ''31.222'', ''.222'']
   \<and> parse_casa_dotted_dec ''+17.43.31.222'' = Inr (17 + 43 / 60 + (31222 / 1000) / 3600, 3)
   \<and> parse_to_degrees ''+17.43.31.222'' False ''casa'' = Inr (17 + 43 / 60 + (31222 / 1000) / 3600, 3)
   \<and> parse_to_degrees ''+17.43.31.222'' False ''degrees'' = Inl (CannotParseDecimal ''+17.43.31.222'')
   \<and> ra_dec_converter_re ''09:54:56.823626 +17.43.31.222'' ''degrees'' ''degrees'' '', '' '' ''
        False False None None = Inl AppearsHMS
   \<and> ra_dec_converter_re ''30:54:56.823626 +17.43.31.222'' ''degrees'' ''degrees'' '', '' '' ''
        False False None None = Inl CasaOnlyHmsdms"
  by code_simp

subsection \<open>C5: the sign of a declination with zero degrees\<close>

text \<open>
  Claim C5, at the degrees field \<^verbatim>\<open>-00\<close> with 30 minutes and 0 seconds.
  \<^verbatim>\<open>dms_to_degrees\<close> of \<^verbatim>\<open>src/coordinate_parser.py\<close> takes the sign from the number
  \<^verbatim>\<open>float('-00')\<close>, which is not below zero, and returns \<open>+1/2\<close>; the function of the same
  name in \<^verbatim>\<open>src/python/coordinate_parser.py\<close> takes the sign from the text and returns
  \<open>-1/2\<close>. The converters differ in the same way on \<^verbatim>\<open>00:00:00 -00:30:00\<close>.
\<close>

theorem C5_negative_zero_degrees:
  "dms_to_degrees_re ''-00'' ''30'' ''0'' = Inr (1 / 2)
   \<and> dms_to_degrees ''-00'' ''30'' ''0'' = Inr (- (1 / 2))
   \<and> ra_dec_converter_re ''00:00:00 -00:30:00'' ''hmsdms'' ''degrees'' '', '' '' '' False False None None
       = Inr ''0.0000000, +0.500000''
   \<and> ra_dec_converter ''00:00:00 -00:30:00'' ''hmsdms'' ''degrees'' None '', '' False False (Some 7) (Some 6)
       = Inr ''0.0000000, -0.500000''"
  by code_simp

subsection \<open>C7: two digits before the point of the seconds\<close>

text \<open>
  Claim C7, at the seconds value 8.9. \<^verbatim>\<open>degrees_to_hms\<close> and \<^verbatim>\<open>degrees_to_dms\<close> of
  \<^verbatim>\<open>src/coordinate_parser.py\<close> format the seconds with the fixed width 5, which gives two
  digits before the point at precision 2 only: one digit at precision 3, three digits at
  precision 1, and \<^verbatim>\<open>degrees_to_hms\<close> pads nothing at precision 0. The functions of
  \<^verbatim>\<open>src/python/coordinate_parser.py\<close> render \<^verbatim>\<open>08.900\<close> and \<^verbatim>\<open>08.90\<close>.
\<close>

theorem C7_seconds_padding:
  "degrees_to_hms_re (89 / 36000) 3 '' '' = ''00 00 8.900''
   \<and> degrees_to_dms_re (89 / 36000) 3 '' '' = ''+00 00 8.900''
   \<and> degrees_to_hms_re (89 / 36000) 1 '' '' = ''00 00 008.9''
   \<and> degrees_to_hms_re (89 / 36000) 0 '' '' = ''00 00 9''
   \<and> degrees_to_dms_re (89 / 36000) 0 '' '' = ''+00 00 09''
   \<and> degrees_to_hms_re (89 / 36000) 2 '' '' = ''00 00 08.90''
   \<and> degrees_to_hms (89 / 2400) 3 '':'' = Inr ''00:00:08.900''
   \<and> two_digit_left (89 / 10) 2 = Inr ''08.90''"
  by code_simp

subsection \<open>C3: elided minute and second fields\<close>

lemma py_float_0: "py_float ''0'' = Some 0"
  by code_simp

lemma determine_precision_0: "determine_precision ''0'' = 0"
  by code_simp

lemma parse_hms_or_dms_tokens:
  "hms_tokens c = [] \<Longrightarrow> parse_hms_or_dms c = (''0'', ''0'', ''0'')"
  "hms_tokens c = [t0] \<Longrightarrow> parse_hms_or_dms c = (t0, ''0'', ''0'')"
  "hms_tokens c = [t0, t1] \<Longrightarrow> parse_hms_or_dms c = (t0, t1, ''0'')"
  "hms_tokens c = t0 # t1 # t2 # extra \<Longrightarrow> parse_hms_or_dms c = (t0, t1, t2)"
  by (simp_all add: parse_hms_or_dms_def)

lemma parse_ra_one_token:
  assumes "hms_tokens (strip c) = [t0]" and "py_float t0 = Some v" and "0 \<le> v" and "v < 24"
  shows "parse_to_degrees c True ''hmsdms'' = Inr (v * 15, 0)"
  using assms
  by (simp add: parse_to_degrees_def parse_hms_or_dms_tokens hms_to_degrees_def to_float_Some
      err_bind_simps py_float_0 determine_precision_0)

lemma parse_ra_two_tokens:
  assumes "hms_tokens (strip c) = [t0, t1]" and "py_float t0 = Some v" and "0 \<le> v" and "v < 24"
    and "py_float t1 = Some w" and "0 \<le> w" and "w < 60"
  shows "parse_to_degrees c True ''hmsdms'' = Inr ((v + w / 60) * 15, 0)"
  using assms
  by (simp add: parse_to_degrees_def parse_hms_or_dms_tokens hms_to_degrees_def to_float_Some
      err_bind_simps py_float_0 determine_precision_0)

lemma elision_example:
  "split_ra_dec ''12 +45'' ''hmsdms'' = Inr (''12'', ''+45'')"
  "parse_to_degrees ''12'' True ''hmsdms'' = Inr (180, 0)"
  "parse_to_degrees ''+45'' False ''hmsdms'' = Inr (45, 0)"
  "ra_dec_converter ''12 +45'' ''hmsdms'' ''hmsdms'' None [CHR 0x09] False False (Some 2) (Some 2)
     = Inr (''12:00:00.00'' @ [CHR 0x09] @ ''+45:00:00.00'')"
  "ra_dec_converter_re ''12 +45'' ''hmsdms'' ''hmsdms'' '', '' '' '' False False None None
     = Inl AppearsDecimal"
  by code_simp+

text \<open>
  Claim C3 as stated fails on the regular-expression based converter: \<^verbatim>\<open>12 +45\<close> matches
  the pattern of decimal degrees first, and the guard on \<^verbatim>\<open>input_format == 'hmsdms'\<close>
  raises "Input appears to be in decimal degrees".
\<close>

theorem C3_counterexample:
  "ra_dec_converter_re ''12 +45'' ''hmsdms'' ''hmsdms'' '', '' '' '' False False None None
     = Inl AppearsDecimal"
  by code_simp

text \<open>
  Claim C3, amended. In the split-based converter, under the input format \<^verbatim>\<open>hmsdms\<close>,
  \<^verbatim>\<open>parse_hms_or_dms\<close> fills every missing minute or second field with \<^verbatim>\<open>'0'\<close>: no
  token gives \<open>(0, 0, 0)\<close>, one token \<open>(t0, 0, 0)\<close>, two tokens \<open>(t0, t1, 0)\<close>, and a right
  ascension of one or two fields in range is read without error. The input \<^verbatim>\<open>12 +45\<close>
  resolves to 180 degrees (12h 00m 00s) and +45 degrees and is rendered
  \<^verbatim>\<open>12:00:00.00<TAB>+45:00:00.00\<close>. The regular-expression based converter rejects the
  same input with the error "Input appears to be in decimal degrees".
\<close>

theorem C3_elision_fill:
  "(hms_tokens c = [] \<longrightarrow> parse_hms_or_dms c = (''0'', ''0'', ''0''))
   \<and> (hms_tokens c = [t0] \<longrightarrow> parse_hms_or_dms c = (t0, ''0'', ''0''))
   \<and> (hms_tokens c = [t0, t1] \<longrightarrow> parse_hms_or_dms c = (t0, t1, ''0''))
   \<and> (hms_tokens (strip c) = [t0] \<and> py_float t0 = Some v \<and> 0 \<le> v \<and> v < 24
        \<longrightarrow> parse_to_degrees c True ''hmsdms'' = Inr (v * 15, 0))
   \<and> (hms_tokens (strip c) = [t0, t1] \<and> py_float t0 = Some v \<and> 0 \<le> v \<and> v < 24
        \<and> py_float t1 = Some w \<and> 0 \<le> w \<and> w < 60
        \<longrightarrow> parse_to_degrees c True ''hmsdms'' = Inr ((v + w / 60) * 15, 0))
   \<and> split_ra_dec ''12 +45'' ''hmsdms'' = Inr (''12'', ''+45'')
   \<and> parse_to_degrees ''12'' True ''hmsdms'' = Inr (180, 0)
   \<and> parse_to_degrees ''+45'' False ''hmsdms'' = Inr (45, 0)
   \<and> ra_dec_converter ''12 +45'' ''hmsdms'' ''hmsdms'' None [CHR 0x09] False False (Some 2) (Some 2)
       = Inr (''12:00:00.00'' @ [CHR 0x09] @ ''+45:00:00.00'')
   \<and> ra_dec_converter_re ''12 +45'' ''hmsdms'' ''hmsdms'' '', '' '' '' False False None None
       = Inl AppearsDecimal"
  using parse_hms_or_dms_tokens(1-3)[of c] parse_ra_one_token[of c t0 v]
    parse_ra_two_tokens[of c t0 t1 v w] elision_example
  by blast

lemma hms_tokens_12: "hms_tokens ''12'' = [''12'']" "strip ''12'' = ''12''"
  by code_simp+

theorem C3_elision_fill_witness:
  "parse_hms_or_dms ''12'' = (''12'', ''0'', ''0'')
   \<and> parse_to_degrees ''12'' True ''hmsdms'' = Inr (12 * 15, 0)"
  using C3_elision_fill [of "''12''" "''12''" "''0''" 12 0] hms_tokens_12 py_float_12
  by simp

subsection \<open>C8: both \<^verbatim>\<open>ra_only\<close> and \<^verbatim>\<open>dec_only\<close>\<close>

lemma finish_re_ra_only:
  "finish_re i out rdl idl True True p q = finish_re i out rdl idl True False p q"
  by (intro ext) (simp only: finish_re_def if_True)

lemma try_patterns_ra_only:
  "try_patterns ps s i out rdl idl True True p q = try_patterns ps s i out rdl idl True False p q"
  by (induction ps) (auto simp: finish_re_ra_only split: option.splits)

lemma ra_dec_converter_ra_only:
  "ra_dec_converter s i out idl rdl True True p q = ra_dec_converter s i out idl rdl True False p q"
  by (simp only: ra_dec_converter_def if_True)

lemma ra_dec_converter_re_ra_only:
  "ra_dec_converter_re s i out rdl idl True True p q
     = ra_dec_converter_re s i out rdl idl True False p q"
  by (simp only: ra_dec_converter_re_def try_patterns_ra_only)

lemma both_flags_example:
  "ra_dec_converter ''12:30:00 +45:00:00'' ''hmsdms'' ''hmsdms'' None '', '' True True (Some 2) (Some 2)
     = Inr ''12:30:00.00''"
  "ra_dec_converter_re ''12:30:00 +45:00:00'' ''hmsdms'' ''hmsdms'' '', '' '' '' True True None None
     = Inr ''12 30 00.00''"
  by code_simp+

text \<open>
  Claim C8 as stated fails: with both flags set the converters raise nothing and return
  the right ascension.
\<close>

theorem C8_counterexample:
  "ra_dec_converter ''12:30:00 +45:00:00'' ''hmsdms'' ''hmsdms'' None '', '' True True (Some 2) (Some 2)
     = Inr ''12:30:00.00''
   \<and> ra_dec_converter_re ''12:30:00 +45:00:00'' ''hmsdms'' ''hmsdms'' '', '' '' '' True True None None
     = Inr ''12 30 00.00''"
  by code_simp

text \<open>
  Claim C8, amended. With both \<^verbatim>\<open>ra_only\<close> and \<^verbatim>\<open>dec_only\<close> set, each converter
  behaves on every input exactly as with \<^verbatim>\<open>ra_only\<close> alone: \<^verbatim>\<open>ra_only\<close> is tested
  first, so a valid input yields the string of the right ascension and no configuration
  error is raised.
\<close>

theorem C8_ra_only_wins:
  "ra_dec_converter s i out idl rdl True True p q = ra_dec_converter s i out idl rdl True False p q
   \<and> ra_dec_converter_re s i out rdl idl' True True p q
       = ra_dec_converter_re s i out rdl idl' True False p q
   \<and> ra_dec_converter ''12:30:00 +45:00:00'' ''hmsdms'' ''hmsdms'' None '', '' True True (Some 2) (Some 2)
       = Inr ''12:30:00.00''
   \<and> ra_dec_converter_re ''12:30:00 +45:00:00'' ''hmsdms'' ''hmsdms'' '', '' '' '' True True None None
       = Inr ''12 30 00.00''"
  using ra_dec_converter_ra_only[of s i out idl rdl p q]
    ra_dec_converter_re_ra_only[of s i out rdl idl' p q] both_flags_example
  by blast

subsection \<open>C10: more than three fields in a token\<close>

lemma parse_extra_tokens:
  assumes "hms_tokens (strip a) = t0 # t1 # t2 # extra" and "hms_tokens (strip b) = [t0, t1, t2]"
  shows "parse_to_degrees a is_ra ''hmsdms'' = parse_to_degrees b is_ra ''hmsdms''"
  using assms
  by (simp add: parse_to_degrees_def parse_hms_or_dms_tokens(4))

lemma extra_fields_example:
  "hms_tokens ''12:30:45:59'' = [''12'', ''30'', ''45'', ''59'']"
  "hms_tokens ''12:30:45'' = [''12'', ''30'', ''45'']"
  "ra_dec_converter ''12:30:45:59 +10:00:00'' ''hmsdms'' ''hmsdms'' None '', '' False False None None
     = Inr ''12:30:45, +10:00:00''"
  "ra_dec_converter ''12:30:45 +10:00:00'' ''hmsdms'' ''hmsdms'' None '', '' False False None None
     = Inr ''12:30:45, +10:00:00''"
  by code_simp+

text \<open>
  Claim C10. In the split-based converter, a token that splits into four or more fields
  does not fail: \<^verbatim>\<open>parse_hms_or_dms\<close> returns the first three fields, so under the input
  format \<^verbatim>\<open>hmsdms\<close> the token is read exactly as the token made of its first three
  fields. The input \<^verbatim>\<open>12:30:45:59 +10:00:00\<close> gives the result of
  \<^verbatim>\<open>12:30:45 +10:00:00\<close>.
\<close>

theorem C10_extra_fields_dropped:
  "(hms_tokens c = t0 # t1 # t2 # extra \<longrightarrow> parse_hms_or_dms c = (t0, t1, t2))
   \<and> (hms_tokens (strip a) = t0 # t1 # t2 # extra \<and> hms_tokens (strip b) = [t0, t1, t2]
        \<longrightarrow> parse_to_degrees a is_ra ''hmsdms'' = parse_to_degrees b is_ra ''hmsdms'')
   \<and> hms_tokens ''12:30:45:59'' = [''12'', ''30'', ''45'', ''59'']
   \<and> hms_tokens ''12:30:45'' = [''12'', ''30'', ''45'']
   \<and> ra_dec_converter ''12:30:45:59 +10:00:00'' ''hmsdms'' ''hmsdms'' None '', '' False False None None
       = Inr ''12:30:45, +10:00:00''
   \<and> ra_dec_converter ''12:30:45 +10:00:00'' ''hmsdms'' ''hmsdms'' None '', '' False False None None
       = Inr ''12:30:45, +10:00:00''"
  using parse_hms_or_dms_tokens(4)[of c t0 t1 t2 extra] parse_extra_tokens[of a t0 t1 t2 extra b is_ra]
    extra_fields_example
  by blast

lemma strip_examples: "strip ''12:30:45:59'' = ''12:30:45:59''" "strip ''12:30:45'' = ''12:30:45''"
  by code_simp+

theorem C10_extra_fields_dropped_witness:
  "parse_hms_or_dms ''12:30:45:59'' = (''12'', ''30'', ''45'')
   \<and> parse_to_degrees ''12:30:45:59'' True ''hmsdms'' = parse_to_degrees ''12:30:45'' True ''hmsdms''"
  using C10_extra_fields_dropped [of "''12:30:45:59''" "''12''" "''30''" "''45''" "[''59'']"
      "''12:30:45:59''" "''12:30:45''" True] extra_fields_example(1,2) strip_examples
  by simp

subsection \<open>C6: rounding of the seconds\<close>









subsection \<open>C9: default precision of decimal output\<close>

text \<open>
  Claim C9 as stated fails on the split-based converter: without a precision it renders
  with the number of digits after the point of the input, here four.
\<close>

theorem C9_counterexample:
  "ra_dec_converter ''12:34:56.7890 +45:23:45.6789'' ''hmsdms'' ''degrees'' None '', '' False False
     None None = Inr ''188.7366, +45.3960''"
  by code_simp

lemma err_bind_Inr:
  "err_bind r f = Inr y \<Longrightarrow> \<exists>x. r = Inr x \<and> f x = Inr y"
  by (cases r) (simp_all add: err_bind_simps)

lemma finish_re_degrees:
  assumes "finish_re i ''degrees'' rdl idl ro dn p q ra0 dec = Inr out"
  shows "\<exists>ra. out = (if ro then format_f False 0 p ra
                      else if dn then format_f True 0 q dec
                      else format_f False 0 p ra @ rdl @ format_f True 0 q dec)"
  using assms
  by (auto simp: finish_re_def Let_def err_bind_def split: if_splits sum.splits)

lemma try_patterns_degrees:
  assumes "try_patterns ps s i ''degrees'' rdl idl ro dn p q = Inr out"
  shows "\<exists>ra dec. out = (if ro then format_f False 0 p ra
                          else if dn then format_f True 0 q dec
                          else format_f False 0 p ra @ rdl @ format_f True 0 q dec)"
  using assms
proof (induction ps)
  case Nil
  then show ?case by simp
next
  case (Cons np ps)
  obtain n pat where np: "np = (n, pat)" by (cases np)
  show ?case
  proof (cases "re_match n pat s")
    case None
    then show ?thesis using Cons np by simp
  next
    case (Some groups)
    then have "err_bind (groups_to_ra_dec s i groups)
                 (\<lambda>(ra, dec). finish_re i ''degrees'' rdl idl ro dn p q ra dec) = Inr out"
      using Cons(2) np by simp
    then obtain x where "finish_re i ''degrees'' rdl idl ro dn p q (fst x) (snd x) = Inr out"
      by (auto dest!: err_bind_Inr simp: case_prod_beta)
    then show ?thesis using finish_re_degrees by blast
  qed
qed

lemma converter_re_default_precision:
  assumes "ra_dec_converter_re s i ''degrees'' rdl idl ro dn None None = Inr out"
  shows "\<exists>ra dec. out = (if ro then format_f False 0 7 ra
                          else if dn then format_f True 0 6 dec
                          else format_f False 0 7 ra @ rdl @ format_f True 0 6 dec)"
proof -
  have "try_patterns patterns (clean_input s) i ''degrees'' rdl idl ro dn 7 6 = Inr out"
    using assms by (simp add: ra_dec_converter_re_def err_bind_simps split: if_splits)
  then show ?thesis by (rule try_patterns_degrees)
qed



lemma default_precision_example:
  "ra_dec_converter_re ''12:34:56.7890 +45:23:45.6789'' ''hmsdms'' ''degrees'' '', '' '' '' False False
     None None = Inr ''188.7366208, +45.396022''"
  "ra_dec_converter ''12:34:56.7890 +45:23:45.6789'' ''hmsdms'' ''degrees'' None '', '' False False
     None None = Inr ''188.7366, +45.3960''"
  by code_simp+

lemma converter_re_both_axes:
  assumes "ra_dec_converter_re s i ''degrees'' rdl idl False False None None = Inr out"
  shows "\<exists>ra_int ra_frac dec_int dec_frac.
           out = ra_int @ ''.'' @ ra_frac @ rdl @ dec_int @ ''.'' @ dec_frac
           \<and> CHR ''.'' \<notin> set ra_int \<and> list_all is_digit ra_frac \<and> length ra_frac = 7
           \<and> CHR ''.'' \<notin> set dec_int \<and> list_all is_digit dec_frac \<and> length dec_frac = 6"
proof -
  obtain ra dec where out: "out = format_f False 0 7 ra @ rdl @ format_f True 0 6 dec"
    using converter_re_default_precision[OF assms] by auto
  obtain a fa where a: "format_f False 0 7 ra = a @ CHR ''.'' # fa" "CHR ''.'' \<notin> set a"
      "list_all is_digit fa" "length fa = 7"
    using format_f_shape[of 7 False ra] by auto
  obtain b fb where b: "format_f True 0 6 dec = b @ CHR ''.'' # fb" "CHR ''.'' \<notin> set b"
      "list_all is_digit fb" "length fb = 6"
    using format_f_shape[of 6 True dec] by auto
  have "out = a @ ''.'' @ fa @ rdl @ b @ ''.'' @ fb" using out a(1) b(1) by simp
  then show ?thesis using a(2-4) b(2-4) by blast
qed

lemma converter_re_ra_axis:
  assumes "ra_dec_converter_re s i ''degrees'' rdl idl True dn None None = Inr out"
  shows "\<exists>ra_int ra_frac. out = ra_int @ ''.'' @ ra_frac
           \<and> CHR ''.'' \<notin> set ra_int \<and> list_all is_digit ra_frac \<and> length ra_frac = 7"
proof -
  obtain ra where out: "out = format_f False 0 7 ra"
    using converter_re_default_precision[OF assms] by auto
  obtain a fa where a: "format_f False 0 7 ra = a @ CHR ''.'' # fa" "CHR ''.'' \<notin> set a"
      "list_all is_digit fa" "length fa = 7"
    using format_f_shape[of 7 False ra] by auto
  have "out = a @ ''.'' @ fa" using out a(1) by simp
  then show ?thesis using a(2-4) by blast
qed

lemma converter_re_dec_axis:
  assumes "ra_dec_converter_re s i ''degrees'' rdl idl False True None None = Inr out"
  shows "\<exists>dec_int dec_frac. out = dec_int @ ''.'' @ dec_frac
           \<and> CHR ''.'' \<notin> set dec_int \<and> list_all is_digit dec_frac \<and> length dec_frac = 6"
proof -
  obtain dec where out: "out = format_f True 0 6 dec"
    using converter_re_default_precision[OF assms] by auto
  obtain b fb where b: "format_f True 0 6 dec = b @ CHR ''.'' # fb" "CHR ''.'' \<notin> set b"
      "list_all is_digit fb" "length fb = 6"
    using format_f_shape[of 6 True dec] by auto
  have "out = b @ ''.'' @ fb" using out b(1) by simp
  then show ?thesis using b(2-4) by blast
qed

lemma converter_input_precision:
  assumes "split_ra_dec (clean_input s) i = Inr (a, b)"
    and "parse_to_degrees a True i = Inr (ra, rp)"
    and "parse_to_degrees b False i = Inr (dec, dp)"
    and "0 \<le> ra" and "ra < 360" and "- 90 \<le> dec" and "dec \<le> 90"
  shows "ra_dec_converter s i ''degrees'' idl rdl False False None None
           = Inr (format_f False 0 rp ra @ rdl @ format_f True 0 dp dec)"
  using assms
  by (simp add: ra_dec_converter_def Let_def err_bind_simps format_degrees_def)

text \<open>
  Claim C9, amended. In the regular-expression based converter, with the output format
  \<^verbatim>\<open>degrees\<close> and no precision given, every result has exactly 7 digits after the point
  of the right ascension and exactly 6 after the point of the declination (together, or
  alone under \<^verbatim>\<open>ra_only\<close> or \<^verbatim>\<open>dec_only\<close>). The split-based converter renders each
  axis with the precision that \<^verbatim>\<open>parse_to_degrees\<close> derived from the input; for
  \<^verbatim>\<open>12:34:56.7890 +45:23:45.6789\<close> that is 4 digits on both axes.
\<close>

theorem C9_default_decimal_precision:
  "(ra_dec_converter_re s i ''degrees'' rdl idl False False None None = Inr out \<longrightarrow>
      (\<exists>ra_int ra_frac dec_int dec_frac.
          out = ra_int @ ''.'' @ ra_frac @ rdl @ dec_int @ ''.'' @ dec_frac
          \<and> CHR ''.'' \<notin> set ra_int \<and> list_all is_digit ra_frac \<and> length ra_frac = 7
          \<and> CHR ''.'' \<notin> set dec_int \<and> list_all is_digit dec_frac \<and> length dec_frac = 6))
   \<and> (ra_dec_converter_re s i ''degrees'' rdl idl True dn None None = Inr out \<longrightarrow>
      (\<exists>ra_int ra_frac. out = ra_int @ ''.'' @ ra_frac
          \<and> CHR ''.'' \<notin> set ra_int \<and> list_all is_digit ra_frac \<and> length ra_frac = 7))
   \<and> (ra_dec_converter_re s i ''degrees'' rdl idl False True None None = Inr out \<longrightarrow>
      (\<exists>dec_int dec_frac. out = dec_int @ ''.'' @ dec_frac
          \<and> CHR ''.'' \<notin> set dec_int \<and> list_all is_digit dec_frac \<and> length dec_frac = 6))
   \<and> (split_ra_dec (clean_input s) i = Inr (a, b) \<and> parse_to_degrees a True i = Inr (ra, rp)
        \<and> parse_to_degrees b False i = Inr (dec, dp)
        \<and> 0 \<le> ra \<and> ra < 360 \<and> - 90 \<le> dec \<and> dec \<le> 90 \<longrightarrow>
      ra_dec_converter s i ''degrees'' idl' rdl False False None None
        = Inr (format_f False 0 rp ra @ rdl @ format_f True 0 dp dec))
   \<and> ra_dec_converter_re ''12:34:56.7890 +45:23:45.6789'' ''hmsdms'' ''degrees'' '', '' '' '' False False
        None None = Inr ''188.7366208, +45.396022''
   \<and> ra_dec_converter ''12:34:56.7890 +45:23:45.6789'' ''hmsdms'' ''degrees'' None '', '' False False
        None None = Inr ''188.7366, +45.3960''"
  using converter_re_both_axes[of s i rdl idl out] converter_re_ra_axis[of s i rdl idl dn out]
    converter_re_dec_axis[of s i rdl idl out]
    converter_input_precision[of s i a b ra rp dec dp idl' rdl] default_precision_example
  by blast

theorem C9_default_decimal_precision_witness:
  "\<exists>ra_int ra_frac dec_int dec_frac.
      ''188.7366208, +45.396022'' = ra_int @ ''.'' @ ra_frac @ '', '' @ dec_int @ ''.'' @ dec_frac
      \<and> CHR ''.'' \<notin> set ra_int \<and> list_all is_digit ra_frac \<and> length ra_frac = 7
      \<and> CHR ''.'' \<notin> set dec_int \<and> list_all is_digit dec_frac \<and> length dec_frac = 6"
  using C9_default_decimal_precision [of "''12:34:56.7890 +45:23:45.6789''" "''hmsdms''" "'', ''"
      "'' ''" "''188.7366208, +45.396022''" False "[]" "[]" 0 0 0 0 None] default_precision_example(1)
  by blast

subsection \<open>C1: range validation\<close>











text \<open>
  The split-based converter does not check the minutes and the seconds of a declination
  in the input format \<^verbatim>\<open>casa\<close>: \<^verbatim>\<open>parse_casa_dotted_dec\<close> computes the value without
  the tests that \<^verbatim>\<open>dms_to_degrees\<close> makes, so 60 minutes are accepted there.
\<close>

lemma casa_minutes_unchecked:
  "ra_dec_converter ''00:00:00 +10.60.00'' ''casa'' ''degrees'' None '', '' False False None None
     = Inr ''0, +11''"
  by code_simp





end
